theory Spec2Isabelle
  imports Main "HOL-Library.Word"
begin

unbundle bit_operations_syntax

section \<open>Machine types\<close>

text \<open>
  \<open>uint32_t\<close> and \<open>uint8_t\<close> are words; their arithmetic wraps. The C types \<open>int\<close>,
  \<open>long int\<close> (64 bits, LP64) and \<open>int64_t\<close> are modelled as \<open>int\<close> wherever the
  source keeps the value inside the type's range, and converted through a word where
  the source narrows or reinterprets it.
\<close>

type_synonym u8 = "8 word"
type_synonym u32 = "32 word"

section \<open>tables.c: the symbol and relocation table\<close>

text \<open>
  Modelled from the spec: the header tables.h with the declarations of \<open>Symbol\<close> and
  \<open>SymbolTable\<close> is not among the sources. The fields are the ones tables.c reads
  and writes (\<open>name\<close>, \<open>addr\<close>; \<open>tbl\<close>, \<open>len\<close>, \<open>cap\<close>, \<open>mode\<close>), with the types
  of section 3 of the specification.

  The backing array \<open>tbl\<close> is represented by the list of its first \<open>len\<close> slots, the
  only slots any function of tables.c reads; \<open>len\<close> is therefore the length of that
  list and \<open>cap\<close>, the number of allocated slots, is kept as a field of its own.
  A pointer that the source tests against \<open>NULL\<close> is an \<open>option\<close>. A live table
  always has a backing array: \<open>create_table\<close> and the growth step of
  \<open>add_to_table\<close> terminate the process (\<open>allocation_failed\<close>) instead of leaving
  \<open>tbl\<close> null, so the test \<open>!table->tbl\<close> never fires and allocation is taken to succeed.
\<close>

record Symbol =
  name :: string
  addr :: u32

record SymbolTable =
  tbl :: "Symbol list"
  cap :: nat
  mode :: int

definition len :: "SymbolTable \<Rightarrow> nat" where
  "len table = length (tbl table)"

definition SYMTBL_NON_UNIQUE :: int where
  "SYMTBL_NON_UNIQUE = 0"

definition SYMTBL_UNIQUE_NAME :: int where
  "SYMTBL_UNIQUE_NAME = 1"

definition INITIAL_SIZE :: nat where
  "INITIAL_SIZE = 5"

definition SCALING_FACTOR :: nat where
  "SCALING_FACTOR = 2"

text \<open>The two diagnostics that tables.c sends to the log besides the fatal one.\<close>

datatype log_msg =
  Addr_alignment_incorrect
  | Name_already_exists string

definition create_table :: "int \<Rightarrow> SymbolTable" where
  "create_table m = \<lparr>tbl = [], cap = INITIAL_SIZE, mode = m\<rparr>"

text \<open>
  The loop of \<open>add_to_table\<close> over the slots \<open>0 .. len - 1\<close> that compares each stored
  name with \<open>strcmp\<close>.
\<close>

fun name_exists :: "Symbol list \<Rightarrow> string \<Rightarrow> bool" where
  "name_exists [] nm = False"
| "name_exists (s # ss) nm = (if name s = nm then True else name_exists ss nm)"

text \<open>
  \<open>add_to_table\<close> returns the C return value, the table after the call and the
  diagnostics logged by the call.
\<close>

definition add_to_table ::
  "SymbolTable option \<Rightarrow> string option \<Rightarrow> u32 \<Rightarrow> int \<times> SymbolTable option \<times> log_msg list" where
  "add_to_table table nm address =
     (case table of
        None \<Rightarrow> (- 1, table, [])
      | Some t \<Rightarrow>
          (case nm of
             None \<Rightarrow> (- 1, table, [])
           | Some n \<Rightarrow>
               if address mod 4 \<noteq> 0 then (- 1, table, [Addr_alignment_incorrect])
               else if mode t = SYMTBL_UNIQUE_NAME \<and> name_exists (tbl t) n
                 then (- 1, table, [Name_already_exists n])
               else
                 (let c = (if len t = cap t then cap t * SCALING_FACTOR else cap t);
                      mapping = \<lparr>name = n, addr = address\<rparr>
                  in (0, Some (t\<lparr>tbl := tbl t @ [mapping], cap := c\<rparr>), []))))"

text \<open>The loop of \<open>get_addr_for_symbol\<close>: the first slot whose name matches wins.\<close>

fun addr_loop :: "Symbol list \<Rightarrow> string \<Rightarrow> int" where
  "addr_loop [] nm = - 1"
| "addr_loop (s # ss) nm = (if name s = nm then uint (addr s) else addr_loop ss nm)"

text \<open>
  The result is an \<open>int64_t\<close>: a stored \<open>uint32_t\<close> address converts to it without
  change, so the result is \<open>- 1\<close> or a value in \<open>0 .. 2^32 - 1\<close>. The name is passed
  to \<open>strcmp\<close> unchecked and is taken to be a valid string.
\<close>

definition get_addr_for_symbol :: "SymbolTable option \<Rightarrow> string \<Rightarrow> int" where
  "get_addr_for_symbol table nm =
     (case table of None \<Rightarrow> - 1 | Some t \<Rightarrow> addr_loop (tbl t) nm)"

text \<open>
  The scenario of repeated insertion: each pair is handed to \<open>add_to_table\<close> in
  turn, and the run stops with \<open>None\<close> at the first call that does not return 0.
\<close>

fun add_entries :: "SymbolTable \<Rightarrow> (string \<times> u32) list \<Rightarrow> SymbolTable option" where
  "add_entries t [] = Some t"
| "add_entries t (e # es) =
     (case add_to_table (Some t) (Some (fst e)) (snd e) of
        (r, Some t', lg) \<Rightarrow> (if r = 0 then add_entries t' es else None)
      | (r, None, lg) \<Rightarrow> None)"

definition symbol_of :: "string \<times> u32 \<Rightarrow> Symbol" where
  "symbol_of e = \<lparr>name = fst e, addr = snd e\<rparr>"

text \<open>The invariant of section 3: every stored address is a multiple of 4.\<close>

definition word_aligned :: "SymbolTable \<Rightarrow> bool" where
  "word_aligned t = list_all (\<lambda>s. addr s mod 4 = 0) (tbl t)"


section \<open>translate_utils.c: registers, numbers and output\<close>

text \<open>
  The output stream is represented by the text a call appends to it. A string that
  the source hands to \<open>strcmp\<close> or \<open>fprintf\<close> without a test is taken to be valid.
\<close>

definition newline :: char where
  "newline = CHR 0x0A"

text \<open>\<open>fprintf(output, "%s", name)\<close>, then \<open>" %s"\<close> for each argument, then a newline.\<close>

definition write_inst_string :: "string \<Rightarrow> string list \<Rightarrow> string" where
  "write_inst_string nm args = nm @ concat (map (\<lambda>a. CHR '' '' # a) args) @ [newline]"

definition hex_digit :: "nat \<Rightarrow> char" where
  "hex_digit n = ''0123456789abcdef'' ! (n mod 16)"

text \<open>\<open>fprintf(output, "%08x\n", instruction)\<close>: eight lower-case hexadecimal digits.\<close>

definition write_inst_hex :: "u32 \<Rightarrow> string" where
  "write_inst_hex instruction =
     map (\<lambda>k. hex_digit (unat (drop_bit (4 * k) instruction))) [7, 6, 5, 4, 3, 2, 1, 0]
       @ [newline]"

definition dec_digit :: "nat \<Rightarrow> char" where
  "dec_digit n = ''0123456789'' ! (n mod 10)"

fun dec_nat :: "nat \<Rightarrow> string" where
  "dec_nat n = (if n < 10 then [dec_digit n] else dec_nat (n div 10) @ [dec_digit n])"

text \<open>The conversion \<open>%ld\<close> of \<open>fprintf\<close>.\<close>

definition dec_long :: "int \<Rightarrow> string" where
  "dec_long i = (if i < 0 then CHR ''-'' # dec_nat (nat (- i)) else dec_nat (nat i))"

definition LONG_MAX :: int where
  "LONG_MAX = 2 ^ 63 - 1"

definition LONG_MIN :: int where
  "LONG_MIN = - (2 ^ 63)"

definition INT16_MIN :: int where
  "INT16_MIN = - 32768"

definition INT16_MAX :: int where
  "INT16_MAX = 32767"

definition UINT16_MAX :: int where
  "UINT16_MAX = 65535"

text \<open>
  \<open>strtol(str, &end, 0)\<close> is a function of the C library, not of this repository. It
  is modelled after its specification (ISO C, 7.22.1.4) for base 0 and a 64-bit
  \<open>long\<close>: white space is skipped, then an optional sign, then the prefix \<open>0x\<close> or
  \<open>0X\<close> (when a hexadecimal digit follows) selects base 16, a leading \<open>0\<close> base 8,
  anything else base 10; the longest run of digits of that base is converted and the
  value is clamped to \<open>LONG_MIN .. LONG_MAX\<close>. When there is no digit the result is 0
  and \<open>end\<close> is the start of the string. The result is the value and the rest of
  the string at \<open>end\<close>.
\<close>

definition isspace :: "char \<Rightarrow> bool" where
  "isspace c = (c = CHR '' '' \<or> c = CHR 0x09 \<or> c = CHR 0x0A \<or> c = CHR 0x0B \<or>
                c = CHR 0x0C \<or> c = CHR 0x0D)"

definition digit_value :: "char \<Rightarrow> nat option" where
  "digit_value c =
     (let k = (of_char c :: nat)
      in if 48 \<le> k \<and> k \<le> 57 then Some (k - 48)
         else if 97 \<le> k \<and> k \<le> 122 then Some (k - 87)
         else if 65 \<le> k \<and> k \<le> 90 then Some (k - 55)
         else None)"

definition is_digit_of :: "nat \<Rightarrow> char \<Rightarrow> bool" where
  "is_digit_of base c = (case digit_value c of None \<Rightarrow> False | Some d \<Rightarrow> d < base)"

fun strtol_sign :: "string \<Rightarrow> bool \<times> string" where
  "strtol_sign [] = (False, [])"
| "strtol_sign (c # cs) =
     (if c = CHR ''-'' then (True, cs)
      else if c = CHR ''+'' then (False, cs)
      else (False, c # cs))"

fun strtol_base :: "string \<Rightarrow> nat \<times> string" where
  "strtol_base (z # x # h # cs) =
     (if z = CHR ''0'' \<and> (x = CHR ''x'' \<or> x = CHR ''X'') \<and> is_digit_of 16 h
        then (16, h # cs)
      else if z = CHR ''0'' then (8, z # x # h # cs)
      else (10, z # x # h # cs))"
| "strtol_base cs = (if cs \<noteq> [] \<and> hd cs = CHR ''0'' then (8, cs) else (10, cs))"

fun strtol_digits :: "nat \<Rightarrow> nat \<Rightarrow> string \<Rightarrow> nat \<times> string" where
  "strtol_digits base acc [] = (acc, [])"
| "strtol_digits base acc (c # cs) =
     (case digit_value c of
        None \<Rightarrow> (acc, c # cs)
      | Some d \<Rightarrow> if d < base then strtol_digits base (acc * base + d) cs else (acc, c # cs))"

definition strtol :: "string \<Rightarrow> int \<times> string" where
  "strtol str =
     (let (neg, s2) = strtol_sign (dropWhile isspace str);
          (base, s3) = strtol_base s2
      in if s3 = [] \<or> \<not> is_digit_of base (hd s3) then (0, str)
         else
           (let (n, rest) = strtol_digits base 0 s3;
                v = (if neg then - int n else int n)
            in (max LONG_MIN (min LONG_MAX v), rest)))"

text \<open>
  \<open>translate_num\<close>: the first argument is the content of the location \<open>output\<close>
  points to before the call (at every call site the address of a local variable),
  the result is the C return value and the content of that location after the call.
  The pointer \<open>end\<close> that \<open>strtol\<close> sets is never read.
\<close>

definition translate_num :: "int \<Rightarrow> string option \<Rightarrow> int \<Rightarrow> int \<Rightarrow> int \<times> int" where
  "translate_num output str lower_bound upper_bound =
     (case str of
        None \<Rightarrow> (- 1, output)
      | Some s \<Rightarrow>
          (let (sig_num, end_ptr) = strtol s
           in if sig_num < lower_bound \<or> sig_num > upper_bound then (- 1, output)
              else (0, sig_num)))"

definition translate_reg :: "string \<Rightarrow> int" where
  "translate_reg str =
     (if str = ''$zero'' then 0
      else if str = ''$0'' then 0
      else if str = ''$at'' then 1
      else if str = ''$v0'' then 2
      else if str = ''$a0'' then 4
      else if str = ''$a1'' then 5
      else if str = ''$a2'' then 6
      else if str = ''$a3'' then 7
      else if str = ''$t0'' then 8
      else if str = ''$t1'' then 9
      else if str = ''$t2'' then 10
      else if str = ''$t3'' then 11
      else if str = ''$s0'' then 16
      else if str = ''$s1'' then 17
      else if str = ''$s2'' then 18
      else if str = ''$s3'' then 19
      else if str = ''$sp'' then 29
      else if str = ''$fp'' then 30
      else if str = ''$ra'' then 31
      else - 1)"

text \<open>The tokens on which \<open>translate_reg\<close> does not return \<open>- 1\<close>.\<close>

definition accepted_registers :: "string set" where
  "accepted_registers = {str. translate_reg str \<noteq> - 1}"


section \<open>translate.c: pass one and pass two\<close>

text \<open>
  An argument array \<open>char** args\<close> with its \<open>num_args\<close> entries is the list of
  those entries, a \<open>NULL\<close> entry being \<open>None\<close>; \<open>num_args\<close> is the length of the
  list. The loop \<open>for (i = 0; i < num_args; i++) if (!args[i]) return ...\<close> that
  opens most functions is \<open>args_present\<close>: it yields the strings when no entry is null.
\<close>

fun args_present :: "string option list \<Rightarrow> string list option" where
  "args_present [] = Some []"
| "args_present (None # as) = None"
| "args_present (Some a # as) =
     (case args_present as of None \<Rightarrow> None | Some bs \<Rightarrow> Some (a # bs))"

definition TWO_POW_SEVENTEEN :: int where
  "TWO_POW_SEVENTEEN = 131072"

text \<open>
  \<open>write_pass_one\<close> returns the number of instructions written and the text
  written. Its first argument is the indeterminate content of the local variable
  \<open>imm\<close> before \<open>translate_num\<close> is called on it; the return value of that call is
  dropped by the source. The shift \<open>imm >> 16\<close> and the mask \<open>imm & 0xFFFF\<close> are
  computed on a \<open>long\<close>.
\<close>

definition write_pass_one :: "int \<Rightarrow> string \<Rightarrow> string option list \<Rightarrow> nat \<times> string" where
  "write_pass_one imm0 nm args =
     (case args_present args of
        None \<Rightarrow> (0, [])
      | Some as \<Rightarrow>
          if nm = ''li'' then
            (case as of
               [a0, a1] \<Rightarrow>
                 (let (err, imm) = translate_num imm0 (Some a1) LONG_MIN LONG_MAX
                  in if imm < 65536
                     then (1, ''addiu '' @ a0 @ '' $0 '' @ a1 @ [newline])
                     else (2, ''lui $at '' @ dec_long (drop_bit 16 imm) @ [newline] @
                              ''ori '' @ a0 @ '' $at '' @ dec_long (imm AND 0xFFFF) @ [newline]))
             | _ \<Rightarrow> (0, []))
          else if nm = ''push'' then
            (case as of
               [a0] \<Rightarrow> (2, ''addiu $sp $sp -4'' @ [newline] @ ''sw '' @ a0 @ '' 0($sp)'' @ [newline])
             | _ \<Rightarrow> (0, []))
          else if nm = ''pop'' then
            (case as of
               [a0] \<Rightarrow> (2, ''lw '' @ a0 @ '' 0($sp)'' @ [newline] @ ''addiu $sp $sp 4'' @ [newline])
             | _ \<Rightarrow> (0, []))
          else if nm = ''mod'' then
            (case as of
               [a0, a1, a2] \<Rightarrow>
                 (2, ''div '' @ a1 @ '' '' @ a2 @ [newline] @ ''mfhi '' @ a0 @ [newline])
             | _ \<Rightarrow> (0, []))
          else if nm = ''subu'' then
            (case as of
               [a0, a1, a2] \<Rightarrow>
                 (4, ''addiu $at $0 -1'' @ [newline] @ ''xor $at $at '' @ a2 @ [newline] @
                     ''addiu $at $at 1'' @ [newline] @
                     ''addu '' @ a0 @ '' '' @ a1 @ '' $at'' @ [newline])
             | _ \<Rightarrow> (0, []))
          else (1, write_inst_string nm as))"

text \<open>
  The family encoders return the C return value and the text written to the output.
  An instruction word is a sum of \<open>int\<close> or \<open>long\<close> terms converted to \<open>uint32_t\<close>,
  that is, reduced modulo \<open>2^32\<close>; \<open>shl32 v k\<close> is the term \<open>v << k\<close> so reduced
  (also for the operands on which C leaves the shift of an \<open>int\<close> undefined: a
  negative \<open>v\<close>, or a result beyond 31 bits, as \<open>opcode << 26\<close> for an opcode from
  \<open>0x20\<close> on). The first equation of each encoder is the case \<open>num_args\<close> correct
  and no entry null; the second is every other argument array.
  Where an encoder has the local variable \<open>imm\<close> or \<open>shamt\<close>, its first argument
  is the indeterminate content of that variable before \<open>translate_num\<close> is called.
\<close>

definition shl32 :: "int \<Rightarrow> nat \<Rightarrow> u32" where
  "shl32 v k = push_bit k (word_of_int v)"

fun write_rtype :: "u8 \<Rightarrow> string option list \<Rightarrow> int \<times> string" where
  "write_rtype funct [Some a0, Some a1, Some a2] =
     (let rd = translate_reg a0; rs = translate_reg a1; rt = translate_reg a2
      in if rd = - 1 \<or> rt = - 1 \<or> rs = - 1 then (- 1, [])
         else (0, write_inst_hex (ucast funct + shl32 rd 11 + shl32 rt 16 + shl32 rs 21)))"
| "write_rtype funct args = (- 1, [])"

fun write_shift :: "int \<Rightarrow> u8 \<Rightarrow> string option list \<Rightarrow> int \<times> string" where
  "write_shift shamt0 funct [Some a0, Some a1, Some a2] =
     (let rd = translate_reg a0; rt = translate_reg a1;
          (err, shamt) = translate_num shamt0 (Some a2) 0 31
      in if err = - 1 \<or> rd = - 1 \<or> rt = - 1 then (- 1, [])
         else (0, write_inst_hex (ucast funct + shl32 shamt 6 + shl32 rd 11 + shl32 rt 16)))"
| "write_shift shamt0 funct args = (- 1, [])"

text \<open>
  \<open>write_jr\<close> tests \<open>num_args\<close> only and hands \<open>args[0]\<close> to \<open>translate_reg\<close>, which
  passes it to \<open>strcmp\<close>: on a null entry the behaviour is undefined, which is the
  result \<open>None\<close>. The word is written before \<open>rs\<close> is tested.
\<close>

fun write_jr :: "u8 \<Rightarrow> string option list \<Rightarrow> (int \<times> string) option" where
  "write_jr funct [Some a0] =
     (let rs = translate_reg a0;
          out = write_inst_hex (ucast funct + shl32 rs 21)
      in if rs = - 1 then Some (- 1, out) else Some (0, out))"
| "write_jr funct [None] = None"
| "write_jr funct args = Some (- 1, [])"

fun write_addiu :: "int \<Rightarrow> u8 \<Rightarrow> string option list \<Rightarrow> int \<times> string" where
  "write_addiu imm0 opcode [Some a0, Some a1, Some a2] =
     (let rt = translate_reg a0; rs = translate_reg a1;
          (err, imm) = translate_num imm0 (Some a2) INT16_MIN INT16_MAX
      in if err = - 1 \<or> rt = - 1 \<or> rs = - 1 then (- 1, [])
         else (0, write_inst_hex (word_of_int (imm AND 0xFFFF) + shl32 rt 16 + shl32 rs 21 +
                                  shl32 (uint opcode) 26)))"
| "write_addiu imm0 opcode args = (- 1, [])"

fun write_ori :: "int \<Rightarrow> u8 \<Rightarrow> string option list \<Rightarrow> int \<times> string" where
  "write_ori imm0 opcode [Some a0, Some a1, Some a2] =
     (let rt = translate_reg a0; rs = translate_reg a1;
          (err, imm) = translate_num imm0 (Some a2) 0 UINT16_MAX
      in if err = - 1 \<or> rt = - 1 \<or> rs = - 1 then (- 1, [])
         else (0, write_inst_hex (word_of_int (imm AND 0xFFFF) + shl32 rt 16 + shl32 rs 21 +
                                  shl32 (uint opcode) 26)))"
| "write_ori imm0 opcode args = (- 1, [])"

fun write_mult_div :: "u8 \<Rightarrow> string option list \<Rightarrow> int \<times> string" where
  "write_mult_div funct [Some a0, Some a1] =
     (let rs = translate_reg a0; rt = translate_reg a1
      in if rs = - 1 \<or> rt = - 1 then (- 1, [])
         else (0, write_inst_hex (ucast funct + shl32 rt 16 + shl32 rs 21)))"
| "write_mult_div funct args = (- 1, [])"

fun write_mfhi_mflo :: "u8 \<Rightarrow> string option list \<Rightarrow> int \<times> string" where
  "write_mfhi_mflo funct [Some a0] =
     (let rd = translate_reg a0
      in if rd = - 1 then (- 1, [])
         else (0, write_inst_hex (ucast funct + shl32 rd 11)))"
| "write_mfhi_mflo funct args = (- 1, [])"

fun write_lui :: "int \<Rightarrow> u8 \<Rightarrow> string option list \<Rightarrow> int \<times> string" where
  "write_lui imm0 opcode [Some a0, Some a1] =
     (let rt = translate_reg a0;
          (err, imm) = translate_num imm0 (Some a1) 0 UINT16_MAX
      in if err = - 1 \<or> rt = - 1 then (- 1, [])
         else (0, write_inst_hex (word_of_int (imm AND 0xFFFF) + shl32 rt 16 +
                                  shl32 (uint opcode) 26)))"
| "write_lui imm0 opcode args = (- 1, [])"

fun write_mem :: "int \<Rightarrow> u8 \<Rightarrow> string option list \<Rightarrow> int \<times> string" where
  "write_mem imm0 opcode [Some a0, Some a1, Some a2] =
     (let rt = translate_reg a0; rs = translate_reg a2;
          (err, imm) = translate_num imm0 (Some a1) INT16_MIN INT16_MAX
      in if err = - 1 \<or> rt = - 1 \<or> rs = - 1 then (- 1, [])
         else (0, write_inst_hex (word_of_int (imm AND 0xFFFF) + shl32 rt 16 + shl32 rs 21 +
                                  shl32 (uint opcode) 26)))"
| "write_mem imm0 opcode args = (- 1, [])"

text \<open>\<open>int32_t diff = dest_addr - src_addr\<close>: the unsigned difference read as signed.\<close>

definition can_branch_to :: "u32 \<Rightarrow> u32 \<Rightarrow> bool" where
  "can_branch_to src_addr dest_addr =
     (let diff = sint (dest_addr - src_addr)
      in (diff \<ge> 0 \<and> diff \<le> TWO_POW_SEVENTEEN) \<or> (diff < 0 \<and> diff \<ge> - (TWO_POW_SEVENTEEN - 4)))"

text \<open>
  In \<open>write_branch\<close> the \<open>int64_t\<close> result of the lookup is stored in an \<open>int\<close>
  (its low 32 bits, read as signed). In \<open>(label_addr - addr - 4) / 4\<close> the operand
  \<open>addr\<close> is a \<open>uint32_t\<close>, so \<open>label_addr\<close> is converted to \<open>uint32_t\<close> and both the
  subtraction and the division are unsigned; the quotient is then stored in an
  \<open>int32_t\<close>.
\<close>

fun write_branch :: "u8 \<Rightarrow> string option list \<Rightarrow> u32 \<Rightarrow> SymbolTable option \<Rightarrow> int \<times> string" where
  "write_branch opcode [Some a0, Some a1, Some a2] address symtbl =
     (let rs = translate_reg a0; rt = translate_reg a1;
          label_addr = sint (word_of_int (get_addr_for_symbol symtbl a2) :: u32)
      in if label_addr = - 1 \<or> \<not> can_branch_to address (word_of_int label_addr) \<or>
            rt = - 1 \<or> rs = - 1 then (- 1, [])
         else
           (let offset = sint ((word_of_int label_addr - address - 4) div 4 :: u32)
            in (0, write_inst_hex (word_of_int (offset AND 0xffff) + shl32 rt 16 + shl32 rs 21 +
                                   shl32 (uint opcode) 26))))"
| "write_branch opcode args address symtbl = (- 1, [])"

text \<open>
  \<open>write_jump\<close> also returns the relocation table after the call and what
  \<open>add_to_table\<close> logged; the return value of \<open>add_to_table\<close> is dropped by the source.
\<close>

fun write_jump ::
  "u8 \<Rightarrow> string option list \<Rightarrow> u32 \<Rightarrow> SymbolTable option \<Rightarrow>
     int \<times> string \<times> SymbolTable option \<times> log_msg list" where
  "write_jump opcode [a0] address reltbl =
     (let (r, reltbl', lg) = add_to_table reltbl a0 address;
          instruction = shl32 (uint opcode) 26
      in (0, write_inst_hex instruction, reltbl', lg))"
| "write_jump opcode args address reltbl = (- 1, [], reltbl, [])"

text \<open>
  \<open>translate_inst\<close> returns \<open>None\<close> where the behaviour is undefined (see
  \<open>write_jr\<close>) and otherwise the return value, the text written, the relocation
  table after the call and the diagnostics logged. The output stream, the name and
  the argument array are taken to be non-null; \<open>imm0\<close> is the indeterminate
  content of the encoders' local variable.
\<close>

definition no_effect :: "SymbolTable option \<Rightarrow> int \<times> string \<Rightarrow>
    (int \<times> string \<times> SymbolTable option \<times> log_msg list) option" where
  "no_effect reltbl res = Some (fst res, snd res, reltbl, [])"

definition translate_inst ::
  "int \<Rightarrow> string \<Rightarrow> string option list \<Rightarrow> u32 \<Rightarrow> SymbolTable option \<Rightarrow> SymbolTable option \<Rightarrow>
     (int \<times> string \<times> SymbolTable option \<times> log_msg list) option" where
  "translate_inst imm0 nm args address symtbl reltbl =
     (if length args = 0 then Some (- 1, [], reltbl, [])
      else if (nm = ''beq'' \<or> nm = ''bne'') \<and> symtbl = None then Some (- 1, [], reltbl, [])
      else if (nm = ''j'' \<or> nm = ''jal'') \<and> reltbl = None then Some (- 1, [], reltbl, [])
      else if nm = ''addu'' then no_effect reltbl (write_rtype 0x21 args)
      else if nm = ''or'' then no_effect reltbl (write_rtype 0x25 args)
      else if nm = ''slt'' then no_effect reltbl (write_rtype 0x2a args)
      else if nm = ''sltu'' then no_effect reltbl (write_rtype 0x2b args)
      else if nm = ''sll'' then no_effect reltbl (write_shift imm0 0x00 args)
      else if nm = ''xor'' then no_effect reltbl (write_rtype 0x26 args)
      else if nm = ''jr'' then
        (case write_jr 0x08 args of None \<Rightarrow> None | Some res \<Rightarrow> no_effect reltbl res)
      else if nm = ''addiu'' then no_effect reltbl (write_addiu imm0 0x09 args)
      else if nm = ''ori'' then no_effect reltbl (write_ori imm0 0x0d args)
      else if nm = ''lui'' then no_effect reltbl (write_lui imm0 0x0f args)
      else if nm = ''lb'' then no_effect reltbl (write_mem imm0 0x20 args)
      else if nm = ''lbu'' then no_effect reltbl (write_mem imm0 0x24 args)
      else if nm = ''lw'' then no_effect reltbl (write_mem imm0 0x23 args)
      else if nm = ''sb'' then no_effect reltbl (write_mem imm0 0x28 args)
      else if nm = ''sw'' then no_effect reltbl (write_mem imm0 0x2b args)
      else if nm = ''beq'' then no_effect reltbl (write_branch 0x04 args address symtbl)
      else if nm = ''bne'' then no_effect reltbl (write_branch 0x05 args address symtbl)
      else if nm = ''j'' then Some (write_jump 0x02 args address reltbl)
      else if nm = ''jal'' then Some (write_jump 0x03 args address reltbl)
      else if nm = ''mult'' then no_effect reltbl (write_mult_div 0x18 args)
      else if nm = ''div'' then no_effect reltbl (write_mult_div 0x1a args)
      else if nm = ''mfhi'' then no_effect reltbl (write_mfhi_mflo 0x10 args)
      else if nm = ''mflo'' then no_effect reltbl (write_mfhi_mflo 0x12 args)
      else Some (- 1, [], reltbl, []))"


section \<open>The table: insertion, growth and lookup\<close>

lemma name_exists_iff: "name_exists ss nm \<longleftrightarrow> nm \<in> name ` set ss"
  by (induction ss) auto

lemma addr_loop_find:
  "addr_loop ss nm = (case find (\<lambda>s. name s = nm) ss of None \<Rightarrow> - 1 | Some s \<Rightarrow> uint (addr s))"
  by (induction ss) auto

lemma addr_loop_absent: "addr_loop ss nm = - 1 \<longleftrightarrow> nm \<notin> name ` set ss"
proof (induction ss)
  case Nil
  show ?case by simp
next
  case (Cons s ss)
  have "uint (addr s) \<noteq> - 1"
    using uint_ge_0 [of "addr s"] by linarith
  with Cons show ?case by auto
qed

lemma addr_loop_append:
  "addr_loop (ss @ ss') nm = (if nm \<in> name ` set ss then addr_loop ss nm else addr_loop ss' nm)"
  by (induction ss) auto

lemma addr_loop_symbols:
  "addr_loop (map symbol_of es) nm = (case map_of es nm of None \<Rightarrow> - 1 | Some a \<Rightarrow> uint a)"
  by (induction es) (auto simp: symbol_of_def)

lemma add_to_table_ok:
  assumes "address mod 4 = 0"
    and "\<not> (mode t = SYMTBL_UNIQUE_NAME \<and> n \<in> name ` set (tbl t))"
  shows "add_to_table (Some t) (Some n) address =
    (0, Some (t\<lparr>tbl := tbl t @ [\<lparr>name = n, addr = address\<rparr>],
                cap := (if len t = cap t then cap t * SCALING_FACTOR else cap t)\<rparr>), [])"
  using assms by (auto simp: add_to_table_def name_exists_iff Let_def)

lemma add_to_table_unchanged:
  "add_to_table table nm address = (r, table', lg) \<Longrightarrow> r \<noteq> 0 \<Longrightarrow> table' = table"
  by (auto simp: add_to_table_def Let_def split: option.splits if_splits)

lemma add_entries_append:
  "add_entries t (es @ fs) =
     (case add_entries t es of None \<Rightarrow> None | Some u \<Rightarrow> add_entries u fs)"
  by (induction es arbitrary: t) (auto split: prod.splits option.splits)

lemma add_entries_run:
  assumes "list_all (\<lambda>e. snd e mod 4 = 0) es"
    and "mode t0 = SYMTBL_UNIQUE_NAME \<longrightarrow>
           distinct (map fst es) \<and> fst ` set es \<inter> name ` set (tbl t0) = {}"
  shows "\<exists>t. add_entries t0 es = Some t \<and> tbl t = tbl t0 @ map symbol_of es \<and>
           mode t = mode t0 \<and> cap t0 \<le> cap t \<and>
           (\<exists>k. cap t = cap t0 * SCALING_FACTOR ^ k) \<and> (0 < cap t0 \<and> len t0 \<le> cap t0 \<longrightarrow> len t \<le> cap t)"
  using assms
proof (induction es arbitrary: t0)
  case Nil
  have "cap t0 = cap t0 * SCALING_FACTOR ^ 0" by simp
  then have "\<exists>k. cap t0 = cap t0 * SCALING_FACTOR ^ k" by (rule exI)
  then show ?case by simp
next
  case (Cons e es)
  let ?t1 = "t0\<lparr>tbl := tbl t0 @ [\<lparr>name = fst e, addr = snd e\<rparr>],
                cap := (if len t0 = cap t0 then cap t0 * SCALING_FACTOR else cap t0)\<rparr>"
  have al: "snd e mod 4 = 0" and al': "list_all (\<lambda>e. snd e mod 4 = 0) es"
    using Cons.prems(1) by simp_all
  have fresh: "\<not> (mode t0 = SYMTBL_UNIQUE_NAME \<and> fst e \<in> name ` set (tbl t0))"
    using Cons.prems(2) by auto
  have step: "add_to_table (Some t0) (Some (fst e)) (snd e) = (0, Some ?t1, [])"
    by (rule add_to_table_ok [OF al fresh])
  have uniq: "mode ?t1 = SYMTBL_UNIQUE_NAME \<longrightarrow>
      distinct (map fst es) \<and> fst ` set es \<inter> name ` set (tbl ?t1) = {}"
    using Cons.prems(2) by auto
  from Cons.IH [OF al' uniq] obtain t k where t:
    "add_entries ?t1 es = Some t" "tbl t = tbl ?t1 @ map symbol_of es" "mode t = mode ?t1"
    "cap ?t1 \<le> cap t" "cap t = cap ?t1 * SCALING_FACTOR ^ k" "0 < cap ?t1 \<and> len ?t1 \<le> cap ?t1 \<longrightarrow> len t \<le> cap t"
    by blast
  have run: "add_entries t0 (e # es) = Some t"
    using step t(1) by simp
  have entries: "tbl t = tbl t0 @ map symbol_of (e # es)"
    using t(2) by (simp add: symbol_of_def)
  have cap_mono: "cap t0 \<le> cap t"
    using t(4) by (simp add: SCALING_FACTOR_def split: if_splits)
  have pow: "\<exists>j. cap t = cap t0 * SCALING_FACTOR ^ j"
  proof (cases "len t0 = cap t0")
    case True
    then have "cap t = cap t0 * SCALING_FACTOR ^ Suc k" using t(5) by simp
    then show ?thesis by blast
  next
    case False
    then have "cap t = cap t0 * SCALING_FACTOR ^ k" using t(5) by simp
    then show ?thesis by blast
  qed
  have fits: "0 < cap t0 \<and> len t0 \<le> cap t0 \<longrightarrow> len t \<le> cap t"
    using t(6) by (auto simp: len_def SCALING_FACTOR_def split: if_splits)
  show ?case
    using run entries t(3) cap_mono pow fits by simp
qed

lemma names_symbols: "name ` set (map symbol_of es) = fst ` set es"
  by (induction es) (auto simp: symbol_of_def)

lemma addr_loop_pairs:
  "addr_loop (map symbol_of es) nm =
     (case find (\<lambda>e. fst e = nm) es of None \<Rightarrow> - 1 | Some e \<Rightarrow> uint (snd e))"
  by (induction es) (auto simp: symbol_of_def)

lemma add_entries_fresh:
  assumes "list_all (\<lambda>e. snd e mod 4 = 0) es"
    and "m = SYMTBL_UNIQUE_NAME \<longrightarrow> distinct (map fst es)"
  shows "\<exists>t. add_entries (create_table m) es = Some t \<and> tbl t = map symbol_of es \<and>
           mode t = m \<and> len t \<le> cap t \<and> (\<exists>k. cap t = INITIAL_SIZE * SCALING_FACTOR ^ k)"
proof -
  have "mode (create_table m) = SYMTBL_UNIQUE_NAME \<longrightarrow>
      distinct (map fst es) \<and> fst ` set es \<inter> name ` set (tbl (create_table m)) = {}"
    using assms(2) by (simp add: create_table_def)
  from add_entries_run [OF assms(1) this] show ?thesis
    by (auto simp: create_table_def len_def INITIAL_SIZE_def)
qed

text \<open>
  Claim C5. \<open>add_to_table\<close> on a table and a name: an address that is not a
  multiple of 4 is rejected with \<open>- 1\<close> and the alignment diagnostic, the table
  unchanged; in a table of mode \<open>SYMTBL_UNIQUE_NAME\<close> a name already stored is
  rejected with \<open>- 1\<close>, the table unchanged (with the duplicate-name diagnostic
  when the address is aligned); in every other case the call returns 0 and the
  table has one more entry at the end, holding the name and the address. A null
  table or a null name is rejected with \<open>- 1\<close> as well, nothing changed.
\<close>
theorem add_to_table_spec:
  "add_to_table None nm address = (- 1, None, []) \<and>
   add_to_table (Some t) None address = (- 1, Some t, []) \<and>
   (case add_to_table (Some t) (Some n) address of (r, t', lg) \<Rightarrow>
      (address mod 4 \<noteq> 0 \<longrightarrow> r = - 1 \<and> t' = Some t \<and> lg = [Addr_alignment_incorrect]) \<and>
      (mode t = SYMTBL_UNIQUE_NAME \<and> n \<in> name ` set (tbl t) \<longrightarrow>
         r = - 1 \<and> t' = Some t \<and> (address mod 4 = 0 \<longrightarrow> lg = [Name_already_exists n])) \<and>
      (address mod 4 = 0 \<and> \<not> (mode t = SYMTBL_UNIQUE_NAME \<and> n \<in> name ` set (tbl t)) \<longrightarrow>
         r = 0 \<and> lg = [] \<and>
         t' = Some (t\<lparr>tbl := tbl t @ [\<lparr>name = n, addr = address\<rparr>],
                      cap := (if len t = cap t then cap t * SCALING_FACTOR else cap t)\<rparr>)))"
  by (simp add: add_to_table_def name_exists_iff Let_def)

theorem add_to_table_spec_witness:
  "add_to_table (Some (create_table SYMTBL_UNIQUE_NAME)) (Some ''main'') 6 =
     (- 1, Some (create_table SYMTBL_UNIQUE_NAME), [Addr_alignment_incorrect]) \<and>
   add_to_table (Some \<lparr>tbl = [\<lparr>name = ''main'', addr = 0\<rparr>], cap = 5, mode = SYMTBL_UNIQUE_NAME\<rparr>)
       (Some ''main'') 8 =
     (- 1, Some \<lparr>tbl = [\<lparr>name = ''main'', addr = 0\<rparr>], cap = 5, mode = SYMTBL_UNIQUE_NAME\<rparr>,
      [Name_already_exists ''main'']) \<and>
   add_to_table (Some \<lparr>tbl = [\<lparr>name = ''main'', addr = 0\<rparr>], cap = 5, mode = SYMTBL_UNIQUE_NAME\<rparr>)
       (Some ''loop'') 8 =
     (0, Some \<lparr>tbl = [\<lparr>name = ''main'', addr = 0\<rparr>, \<lparr>name = ''loop'', addr = 8\<rparr>], cap = 5,
               mode = SYMTBL_UNIQUE_NAME\<rparr>, [])"
  using add_to_table_spec [where t = "create_table SYMTBL_UNIQUE_NAME" and n = "''main''" and address = 6,
      THEN conjunct2, THEN conjunct2]
    add_to_table_spec [where t = "\<lparr>tbl = [\<lparr>name = ''main'', addr = 0\<rparr>], cap = 5, mode = SYMTBL_UNIQUE_NAME\<rparr>"
      and n = "''main''" and address = 8,
      THEN conjunct2, THEN conjunct2]
    add_to_table_spec [where t = "\<lparr>tbl = [\<lparr>name = ''main'', addr = 0\<rparr>], cap = 5, mode = SYMTBL_UNIQUE_NAME\<rparr>"
      and n = "''loop''" and address = 8,
      THEN conjunct2, THEN conjunct2]
  by (simp add: create_table_def len_def split: prod.splits)

text \<open>
  Claim C7. \<open>get_addr_for_symbol\<close> returns the address of the first entry, in
  insertion order, whose name matches, and \<open>- 1\<close> exactly when no entry matches
  (or the table is null). After word-aligned pairs have been inserted into a fresh
  table, the lookup of a name gives the address of the first pair with that name:
  with distinct names that is the address it was inserted with, and in a
  non-unique table a later entry with the same name is not visible.
\<close>
theorem get_addr_for_symbol_first_match:
  "get_addr_for_symbol None nm = - 1 \<and>
   get_addr_for_symbol (Some t) nm =
     (case find (\<lambda>s. name s = nm) (tbl t) of None \<Rightarrow> - 1 | Some s \<Rightarrow> uint (addr s)) \<and>
   (get_addr_for_symbol (Some t) nm = - 1 \<longleftrightarrow> nm \<notin> name ` set (tbl t)) \<and>
   (list_all (\<lambda>e. snd e mod 4 = 0) es \<and> (m = SYMTBL_UNIQUE_NAME \<longrightarrow> distinct (map fst es)) \<longrightarrow>
      (\<exists>u. add_entries (create_table m) es = Some u \<and>
         get_addr_for_symbol (Some u) nm =
           (case find (\<lambda>e. fst e = nm) es of None \<Rightarrow> - 1 | Some e \<Rightarrow> uint (snd e))))"
proof -
  have a: "get_addr_for_symbol None nm = - 1"
    by (simp add: get_addr_for_symbol_def)
  have b: "get_addr_for_symbol (Some t) nm =
     (case find (\<lambda>s. name s = nm) (tbl t) of None \<Rightarrow> - 1 | Some s \<Rightarrow> uint (addr s))"
    by (simp add: get_addr_for_symbol_def addr_loop_find)
  have c: "get_addr_for_symbol (Some t) nm = - 1 \<longleftrightarrow> nm \<notin> name ` set (tbl t)"
    by (simp add: get_addr_for_symbol_def addr_loop_absent)
  have d: "\<exists>u. add_entries (create_table m) es = Some u \<and>
         get_addr_for_symbol (Some u) nm =
           (case find (\<lambda>e. fst e = nm) es of None \<Rightarrow> - 1 | Some e \<Rightarrow> uint (snd e))"
    if "list_all (\<lambda>e. snd e mod 4 = 0) es" "m = SYMTBL_UNIQUE_NAME \<longrightarrow> distinct (map fst es)"
  proof -
    from add_entries_fresh [OF that] obtain u where
      "add_entries (create_table m) es = Some u" "tbl u = map symbol_of es" by blast
    then show ?thesis
      by (simp add: get_addr_for_symbol_def addr_loop_pairs)
  qed
  from a b c d show ?thesis by blast
qed

theorem get_addr_for_symbol_first_match_witness:
  "list_all (\<lambda>e. snd e mod 4 = 0) [(''f'', 4 :: u32), (''g'', 8), (''f'', 12)] \<and>
   SYMTBL_NON_UNIQUE \<noteq> SYMTBL_UNIQUE_NAME \<and>
   (\<exists>u. add_entries (create_table SYMTBL_NON_UNIQUE) [(''f'', 4), (''g'', 8), (''f'', 12)] = Some u \<and>
      get_addr_for_symbol (Some u) ''f'' = 4 \<and> len u = 3)"
proof -
  have h: "list_all (\<lambda>e. snd e mod 4 = 0) [(''f'', 4 :: u32), (''g'', 8), (''f'', 12)]"
    "SYMTBL_NON_UNIQUE \<noteq> SYMTBL_UNIQUE_NAME"
    by (simp_all add: SYMTBL_NON_UNIQUE_def SYMTBL_UNIQUE_NAME_def)
  have e: "add_entries (create_table SYMTBL_NON_UNIQUE) [(''f'', 4), (''g'', 8), (''f'', 12)] =
     Some \<lparr>tbl = [\<lparr>name = ''f'', addr = 4\<rparr>, \<lparr>name = ''g'', addr = 8\<rparr>, \<lparr>name = ''f'', addr = 12\<rparr>],
           cap = 5, mode = SYMTBL_NON_UNIQUE\<rparr>"
    by (simp add: create_table_def add_to_table_def len_def INITIAL_SIZE_def
        SYMTBL_NON_UNIQUE_def SYMTBL_UNIQUE_NAME_def)
  from get_addr_for_symbol_first_match
    [where nm = "''f''" and t = "create_table SYMTBL_NON_UNIQUE"
      and es = "[(''f'', 4), (''g'', 8), (''f'', 12)]" and m = SYMTBL_NON_UNIQUE]
  show ?thesis using h e by (simp add: len_def)
qed

lemma add_entries_prefix:
  assumes al: "list_all (\<lambda>e. snd e mod 4 = 0) es"
    and un: "m = SYMTBL_UNIQUE_NAME \<longrightarrow> distinct (map fst es)"
    and t: "add_entries (create_table m) es = Some t"
    and i: "i \<le> length es"
  shows "\<exists>u. add_entries (create_table m) (take i es) = Some u \<and> tbl u = take i (tbl t) \<and>
           cap u \<le> cap t \<and>
           (\<forall>nm. get_addr_for_symbol (Some u) nm \<noteq> - 1 \<longrightarrow>
                 get_addr_for_symbol (Some t) nm = get_addr_for_symbol (Some u) nm) \<and>
           (i < length es \<longrightarrow>
              (\<exists>v. add_entries (create_table m) (take (Suc i) es) = Some v \<and>
                   cap v = (if len u = cap u then cap u * SCALING_FACTOR else cap u)))"
proof -
  have split_es: "es = take i es @ drop i es" by simp
  have al1: "list_all (\<lambda>e. snd e mod 4 = 0) (take i es)"
    and al2: "list_all (\<lambda>e. snd e mod 4 = 0) (drop i es)"
    using al by (auto simp: list_all_iff dest: in_set_takeD in_set_dropD)
  have dist: "m = SYMTBL_UNIQUE_NAME \<longrightarrow>
      distinct (map fst (take i es)) \<and> distinct (map fst (drop i es)) \<and>
      fst ` set (drop i es) \<inter> fst ` set (take i es) = {}"
  proof
    assume "m = SYMTBL_UNIQUE_NAME"
    with un have "distinct (map fst (take i es) @ map fst (drop i es))"
      by (simp flip: map_append)
    then show "distinct (map fst (take i es)) \<and> distinct (map fst (drop i es)) \<and>
      fst ` set (drop i es) \<inter> fst ` set (take i es) = {}"
      by auto
  qed
  from add_entries_fresh [OF al1] dist obtain u where u:
    "add_entries (create_table m) (take i es) = Some u" "tbl u = map symbol_of (take i es)"
    "mode u = m"
    by blast
  have nm_u: "name ` set (tbl u) = fst ` set (take i es)"
    by (simp only: u(2) names_symbols)
  have "mode u = SYMTBL_UNIQUE_NAME \<longrightarrow>
      distinct (map fst (drop i es)) \<and> fst ` set (drop i es) \<inter> name ` set (tbl u) = {}"
    using dist u(3) by (simp only: nm_u) blast
  from add_entries_run [OF al2 this] obtain w where w:
    "add_entries u (drop i es) = Some w" "tbl w = tbl u @ map symbol_of (drop i es)"
    "cap u \<le> cap w"
    by blast
  have "add_entries (create_table m) (take i es @ drop i es) = Some w"
    using u(1) w(1) by (simp only: add_entries_append option.case)
  with t have wt: "w = t" by simp
  have pre: "tbl u = take i (tbl t)"
    using w(2) u(2) i wt by simp
  have keep: "get_addr_for_symbol (Some t) nm = get_addr_for_symbol (Some u) nm"
    if "get_addr_for_symbol (Some u) nm \<noteq> - 1" for nm
  proof -
    from that have "nm \<in> name ` set (tbl u)"
      by (simp add: get_addr_for_symbol_def addr_loop_absent)
    then show ?thesis
      using w(2) wt by (simp add: get_addr_for_symbol_def addr_loop_append)
  qed
  have next_step: "\<exists>v. add_entries (create_table m) (take (Suc i) es) = Some v \<and>
      cap v = (if len u = cap u then cap u * SCALING_FACTOR else cap u)"
    if lt: "i < length es"
  proof -
    have tk: "take (Suc i) es = take i es @ [es ! i]"
      using lt by (simp add: take_Suc_conv_app_nth)
    have e_al: "snd (es ! i) mod 4 = 0"
      using al lt by (simp add: list_all_length)
    have "es ! i \<in> set (drop i es)"
      using lt by (metis Cons_nth_drop_Suc list.set_intros(1))
    then have fresh: "\<not> (mode u = SYMTBL_UNIQUE_NAME \<and> fst (es ! i) \<in> name ` set (tbl u))"
      using dist u(3) unfolding nm_u by blast
    let ?v = "u\<lparr>tbl := tbl u @ [\<lparr>name = fst (es ! i), addr = snd (es ! i)\<rparr>],
                cap := (if len u = cap u then cap u * SCALING_FACTOR else cap u)\<rparr>"
    have "add_entries u [es ! i] = Some ?v"
      using add_to_table_ok [OF e_al fresh] by simp
    then have "add_entries (create_table m) (take (Suc i) es) = Some ?v"
      using u(1) by (simp only: tk add_entries_append option.case)
    then show ?thesis by simp
  qed
  show ?thesis
    using u(1) pre w(3) wt keep next_step by blast
qed

text \<open>
  Claim C6. Any number of word-aligned entries (with distinct names when the mode is
  \<open>SYMTBL_UNIQUE_NAME\<close>), in particular six or more, can be inserted into a table
  created with capacity 5: every call succeeds, the entries are stored in insertion
  order, the capacity is 5 doubled some number of times and is doubled by a call
  exactly when the table is full before it, the capacity after any prefix of the
  insertions is at most the final one, the entries after a prefix are a prefix of
  the final entries, and a name found after a prefix is found with the same address
  at the end.
\<close>
theorem table_growth_preserves_entries:
  assumes "list_all (\<lambda>e. snd e mod 4 = 0) es"
    and "m = SYMTBL_UNIQUE_NAME \<longrightarrow> distinct (map fst es)"
  shows "\<exists>t. add_entries (create_table m) es = Some t \<and> tbl t = map symbol_of es \<and>
           len t \<le> cap t \<and> (\<exists>k. cap t = INITIAL_SIZE * SCALING_FACTOR ^ k) \<and>
           (\<forall>i\<le>length es. \<exists>u.
               add_entries (create_table m) (take i es) = Some u \<and> tbl u = take i (tbl t) \<and>
               cap u \<le> cap t \<and>
               (\<forall>nm. get_addr_for_symbol (Some u) nm \<noteq> - 1 \<longrightarrow>
                     get_addr_for_symbol (Some t) nm = get_addr_for_symbol (Some u) nm) \<and>
               (i < length es \<longrightarrow>
                  (\<exists>v. add_entries (create_table m) (take (Suc i) es) = Some v \<and>
                       cap v = (if len u = cap u then cap u * SCALING_FACTOR else cap u)))) \<and>
           (distinct (map fst es) \<longrightarrow>
              (\<forall>e\<in>set es. get_addr_for_symbol (Some t) (fst e) = uint (snd e)))"
proof -
  from add_entries_fresh [OF assms] obtain t where t:
    "add_entries (create_table m) es = Some t" "tbl t = map symbol_of es" "len t \<le> cap t"
    "\<exists>k. cap t = INITIAL_SIZE * SCALING_FACTOR ^ k"
    by blast
  have look: "get_addr_for_symbol (Some t) (fst e) = uint (snd e)"
    if "distinct (map fst es)" "e \<in> set es" for e
  proof -
    from that have "map_of es (fst e) = Some (snd e)" by simp
    then show ?thesis
      using t(2) by (simp add: get_addr_for_symbol_def addr_loop_symbols)
  qed
  show ?thesis
    using t add_entries_prefix [OF assms t(1)] look by blast
qed

theorem table_growth_preserves_entries_witness:
  "list_all (\<lambda>e. snd e mod 4 = 0)
     [(''a'', 0 :: u32), (''b'', 4), (''c'', 8), (''d'', 12), (''e'', 16), (''f'', 20)] \<and>
   distinct (map fst [(''a'', 0 :: u32), (''b'', 4), (''c'', 8), (''d'', 12), (''e'', 16), (''f'', 20)]) \<and>
   (\<exists>t. add_entries (create_table SYMTBL_UNIQUE_NAME)
          [(''a'', 0), (''b'', 4), (''c'', 8), (''d'', 12), (''e'', 16), (''f'', 20)] = Some t \<and>
        len t = 6 \<and> cap t = 10 \<and> get_addr_for_symbol (Some t) ''a'' = 0 \<and>
        get_addr_for_symbol (Some t) ''f'' = 20)"
proof -
  let ?es = "[(''a'', 0 :: u32), (''b'', 4), (''c'', 8), (''d'', 12), (''e'', 16), (''f'', 20)]"
  have al: "list_all (\<lambda>e. snd e mod 4 = 0) ?es" by simp
  have di: "distinct (map fst ?es)" by simp
  then have un: "SYMTBL_UNIQUE_NAME = SYMTBL_UNIQUE_NAME \<longrightarrow> distinct (map fst ?es)" by simp
  have run: "add_entries (create_table SYMTBL_UNIQUE_NAME) ?es =
     Some \<lparr>tbl = map symbol_of ?es, cap = 10, mode = SYMTBL_UNIQUE_NAME\<rparr>"
    by (simp add: create_table_def add_to_table_def len_def INITIAL_SIZE_def symbol_of_def
        SCALING_FACTOR_def SYMTBL_UNIQUE_NAME_def)
  from table_growth_preserves_entries [OF al un] obtain t where
    t: "add_entries (create_table SYMTBL_UNIQUE_NAME) ?es = Some t"
    and look: "distinct (map fst ?es) \<longrightarrow>
      (\<forall>e\<in>set ?es. get_addr_for_symbol (Some t) (fst e) = uint (snd e))"
    by blast
  from look di have "get_addr_for_symbol (Some t) ''a'' = 0" "get_addr_for_symbol (Some t) ''f'' = 20"
    by simp_all
  moreover from t run have "len t = 6" "cap t = 10"
    by (simp_all add: len_def)
  ultimately show ?thesis
    using al di t by blast
qed

section \<open>Registers and numbers\<close>

lemma accepted_registers_eq:
  "accepted_registers =
     {''$zero'', ''$0'', ''$at'', ''$v0'', ''$a0'', ''$a1'', ''$a2'', ''$a3'',
      ''$t0'', ''$t1'', ''$t2'', ''$t3'', ''$s0'', ''$s1'', ''$s2'', ''$s3'',
      ''$sp'', ''$fp'', ''$ra''}"
  unfolding accepted_registers_def translate_reg_def
  by (rule set_eqI) (simp only: mem_Collect_eq insert_iff empty_iff, simp)

lemma card_accepted_registers: "card accepted_registers = 19"
  unfolding accepted_registers_eq by simp

lemma translate_reg_range:
  "translate_reg str = - 1 \<or> (0 \<le> translate_reg str \<and> translate_reg str < 32)"
  by (simp add: translate_reg_def)

text \<open>
  Claim C9, as amended. \<open>translate_reg\<close> returns a register number on exactly 19
  spellings: \<open>$zero\<close> and \<open>$0\<close> give 0, \<open>$at\<close> 1, \<open>$v0\<close> 2, \<open>$a0\<close> to \<open>$a3\<close>
  4 to 7, \<open>$t0\<close> to \<open>$t3\<close> 8 to 11, \<open>$s0\<close> to \<open>$s3\<close> 16 to 19, \<open>$sp\<close> 29,
  \<open>$fp\<close> 30 and \<open>$ra\<close> 31; on every other token it returns \<open>- 1\<close>.
\<close>

theorem translate_reg_spellings:
  "accepted_registers =
     {''$zero'', ''$0'', ''$at'', ''$v0'', ''$a0'', ''$a1'', ''$a2'', ''$a3'',
      ''$t0'', ''$t1'', ''$t2'', ''$t3'', ''$s0'', ''$s1'', ''$s2'', ''$s3'',
      ''$sp'', ''$fp'', ''$ra''} \<and>
   card accepted_registers = 19 \<and>
   (translate_reg str = - 1 \<longleftrightarrow> str \<notin> accepted_registers) \<and>
   map translate_reg
     [''$zero'', ''$0'', ''$at'', ''$v0'', ''$a0'', ''$a1'', ''$a2'', ''$a3'',
      ''$t0'', ''$t1'', ''$t2'', ''$t3'', ''$s0'', ''$s1'', ''$s2'', ''$s3'',
      ''$sp'', ''$fp'', ''$ra''] =
     [0, 0, 1, 2, 4, 5, 6, 7, 8, 9, 10, 11, 16, 17, 18, 19, 29, 30, 31]"
proof -
  have "translate_reg str = - 1 \<longleftrightarrow> str \<notin> accepted_registers"
    by (simp add: accepted_registers_def)
  moreover have "map translate_reg
     [''$zero'', ''$0'', ''$at'', ''$v0'', ''$a0'', ''$a1'', ''$a2'', ''$a3'',
      ''$t0'', ''$t1'', ''$t2'', ''$t3'', ''$s0'', ''$s1'', ''$s2'', ''$s3'',
      ''$sp'', ''$fp'', ''$ra''] =
     [0, 0, 1, 2, 4, 5, 6, 7, 8, 9, 10, 11, 16, 17, 18, 19, 29, 30, 31]"
    by (simp add: translate_reg_def)
  ultimately show ?thesis
    using accepted_registers_eq card_accepted_registers by blast
qed

text \<open>
  Claim C9 as stated speaks of 22 accepted spellings; the tokens that
  \<open>translate_reg\<close> accepts are 19.
\<close>

theorem translate_reg_not_22_spellings: "card accepted_registers \<noteq> 22"
  by (simp add: card_accepted_registers)


lemmas strtol_eval = strtol_def isspace_def is_digit_of_def digit_value_def LONG_MAX_def LONG_MIN_def

lemma translate_num_unfold:
  "translate_num out (Some s) lo hi =
     (if lo \<le> fst (strtol s) \<and> fst (strtol s) \<le> hi then (0, fst (strtol s)) else (- 1, out))"
  by (auto simp: translate_num_def split: prod.splits)

lemma translate_num_failure_keeps_output:
  "fst (translate_num out str lo hi) = - 1 \<Longrightarrow> snd (translate_num out str lo hi) = out"
  by (cases str) (auto simp: translate_num_def split: prod.splits if_splits)

lemma translate_num_success_in_bounds:
  "translate_num out str lo hi = (0, v) \<Longrightarrow> lo \<le> v \<and> v \<le> hi"
  by (cases str) (auto simp: translate_num_def split: prod.splits if_splits)

lemma strtol_abc: "strtol ''abc'' = (0, ''abc'')"
  by (simp add: strtol_eval)

lemma strtol_12abc: "strtol ''12abc'' = (12, ''abc'')"
  by (simp add: strtol_eval)

lemma strtol_big: "strtol ''4294967296'' = (4294967296, [])"
  by (simp add: strtol_eval)

lemma strtol_5: "strtol ''5'' = (5, [])"
  by (simp add: strtol_eval)

text \<open>
  Claim C8 at a failing input. The token \<open>abc\<close> is no number, and \<open>12abc\<close> is a
  number followed by other characters; \<open>translate_num\<close> returns 0 on both and stores
  0 and 12, since it never looks at where \<open>strtol\<close> stopped.
\<close>

theorem translate_num_accepts_malformed:
  "translate_num 7 (Some ''abc'') 0 10 = (0, 0) \<and>
   translate_num 7 (Some ''12abc'') 0 100 = (0, 12)"
  by (simp add: translate_num_def strtol_abc strtol_12abc)

lemma strtol_in_long: "LONG_MIN \<le> fst (strtol s) \<and> fst (strtol s) \<le> LONG_MAX"
  by (auto simp: strtol_def LONG_MIN_def LONG_MAX_def Let_def split: prod.splits)

lemma li_translate_num:
  "translate_num imm0 (Some s) LONG_MIN LONG_MAX = (0, fst (strtol s))"
  using strtol_in_long [of s] by (simp add: translate_num_unfold)

text \<open>
  Claim C3 at a failing input. \<open>4294967296\<close> is \<open>2^32\<close> and fits in 32 bits neither
  signed nor unsigned, yet \<open>li $t0 4294967296\<close> is expanded to a \<open>lui\<close>/\<open>ori\<close> pair
  and 2 is returned; \<open>li $t0 5\<close> gives the single \<open>addiu\<close>; and no \<open>li\<close> with two
  arguments is ever answered with the count 0.
\<close>

theorem li_not_validated:
  "write_pass_one imm0 ''li'' [Some ''$t0'', Some ''4294967296''] =
     (2, ''lui $at 65536'' @ [newline] @ ''ori $t0 $at 0'' @ [newline]) \<and>
   write_pass_one imm0 ''li'' [Some ''$t0'', Some ''5''] =
     (1, ''addiu $t0 $0 5'' @ [newline]) \<and>
   fst (write_pass_one imm0 ''li'' [Some rd, Some tok]) \<noteq> 0"
proof -
  have a: "write_pass_one imm0 ''li'' [Some ''$t0'', Some ''4294967296''] =
     (2, ''lui $at 65536'' @ [newline] @ ''ori $t0 $at 0'' @ [newline])"
    by (simp add: write_pass_one_def li_translate_num strtol_big dec_long_def dec_digit_def
        drop_bit_eq_div)
  have b: "write_pass_one imm0 ''li'' [Some ''$t0'', Some ''5''] =
     (1, ''addiu $t0 $0 5'' @ [newline])"
    by (simp add: write_pass_one_def li_translate_num strtol_5)
  have c: "fst (write_pass_one imm0 ''li'' [Some rd, Some tok]) \<noteq> 0"
    by (simp add: write_pass_one_def li_translate_num)
  from a b c show ?thesis by blast
qed

section \<open>The family encoders\<close>

lemma hex_ffe00008: "write_inst_hex 0xffe00008 = ''ffe00008'' @ [newline]"
  by (simp add: write_inst_hex_def hex_digit_def drop_bit_eq_div)

text \<open>
  Claim C2 at a failing input. \<open>$xx\<close> is no register; \<open>write_jr\<close> returns \<open>- 1\<close>
  on it, but has already written the word \<open>ffe00008\<close> to the output.
\<close>

theorem write_jr_writes_before_check:
  "translate_reg ''$xx'' = - 1 \<and>
   write_jr 0x08 [Some ''$xx''] = Some (- 1, ''ffe00008'' @ [newline]) \<and>
   translate_inst imm0 ''jr'' [Some ''$xx''] address symtbl reltbl =
     Some (- 1, ''ffe00008'' @ [newline], reltbl, [])"
proof -
  have r: "translate_reg ''$xx'' = - 1"
    by (simp add: translate_reg_def)
  have w: "(8 :: u32) + shl32 (- 1) 21 = 0xffe00008"
    by (simp add: shl32_def push_bit_eq_mult)
  have j: "write_jr 0x08 [Some ''$xx''] = Some (- 1, ''ffe00008'' @ [newline])"
    by (simp add: r w hex_ffe00008)
  have "translate_inst imm0 ''jr'' [Some ''$xx''] address symtbl reltbl =
     Some (- 1, ''ffe00008'' @ [newline], reltbl, [])"
    unfolding translate_inst_def by (simp add: j no_effect_def del: write_jr.simps)
  with r j show ?thesis by blast
qed

lemma write_rtype_silent: "fst (write_rtype funct args) \<noteq> 0 \<Longrightarrow> snd (write_rtype funct args) = []"
  by (induction funct args rule: write_rtype.induct) (auto simp: Let_def split: if_splits)

lemma write_shift_silent:
  "fst (write_shift shamt0 funct args) \<noteq> 0 \<Longrightarrow> snd (write_shift shamt0 funct args) = []"
  by (induction shamt0 funct args rule: write_shift.induct) (auto simp: Let_def split: if_splits prod.splits)

lemma write_addiu_silent:
  "fst (write_addiu imm0 opcode args) \<noteq> 0 \<Longrightarrow> snd (write_addiu imm0 opcode args) = []"
  by (induction imm0 opcode args rule: write_addiu.induct) (auto simp: Let_def split: if_splits prod.splits)

lemma write_ori_silent:
  "fst (write_ori imm0 opcode args) \<noteq> 0 \<Longrightarrow> snd (write_ori imm0 opcode args) = []"
  by (induction imm0 opcode args rule: write_ori.induct) (auto simp: Let_def split: if_splits prod.splits)

lemma write_lui_silent:
  "fst (write_lui imm0 opcode args) \<noteq> 0 \<Longrightarrow> snd (write_lui imm0 opcode args) = []"
  by (induction imm0 opcode args rule: write_lui.induct) (auto simp: Let_def split: if_splits prod.splits)

lemma write_mem_silent:
  "fst (write_mem imm0 opcode args) \<noteq> 0 \<Longrightarrow> snd (write_mem imm0 opcode args) = []"
  by (induction imm0 opcode args rule: write_mem.induct) (auto simp: Let_def split: if_splits prod.splits)

lemma write_mult_div_silent:
  "fst (write_mult_div funct args) \<noteq> 0 \<Longrightarrow> snd (write_mult_div funct args) = []"
  by (induction funct args rule: write_mult_div.induct) (auto simp: Let_def split: if_splits)

lemma write_mfhi_mflo_silent:
  "fst (write_mfhi_mflo funct args) \<noteq> 0 \<Longrightarrow> snd (write_mfhi_mflo funct args) = []"
  by (induction funct args rule: write_mfhi_mflo.induct) (auto simp: Let_def split: if_splits)

lemma write_branch_silent:
  "fst (write_branch opcode args address symtbl) \<noteq> 0 \<Longrightarrow>
   snd (write_branch opcode args address symtbl) = []"
  by (induction opcode args address symtbl rule: write_branch.induct) (auto simp: Let_def split: if_splits)

lemma write_jump_silent:
  "fst (write_jump opcode args address reltbl) \<noteq> 0 \<Longrightarrow>
   fst (snd (write_jump opcode args address reltbl)) = []"
  by (induction opcode args address reltbl rule: write_jump.induct) (auto simp: Let_def split: if_splits prod.splits)

lemma shl32_uint: "shl32 (uint (opcode :: u8)) k = push_bit k (ucast opcode)"
  by (simp add: shl32_def)

lemma shl32_j: "shl32 2 26 = 0x08000000"
  by (simp add: shl32_def push_bit_eq_mult)

lemma hex_08000000: "write_inst_hex 0x08000000 = ''08000000'' @ [newline]"
  by (simp add: write_inst_hex_def hex_digit_def drop_bit_eq_div)

text \<open>
  Claim C10. With one argument \<open>write_jump\<close> always returns 0 and writes the word
  \<open>opcode << 26\<close>; when the argument is null or the address is not a multiple of 4,
  \<open>add_to_table\<close> returns \<open>- 1\<close> and the relocation table is left as it was, so
  the word is written without a relocation record.
\<close>
theorem write_jump_ignores_failed_append:
  "fst (write_jump opcode [a0] address reltbl) = 0 \<and>
   fst (snd (write_jump opcode [a0] address reltbl)) = write_inst_hex (push_bit 26 (ucast opcode)) \<and>
   (a0 = None \<or> address mod 4 \<noteq> 0 \<longrightarrow>
      fst (add_to_table reltbl a0 address) = - 1 \<and>
      fst (snd (snd (write_jump opcode [a0] address reltbl))) = reltbl)"
  by (auto simp: shl32_uint add_to_table_def split: prod.splits option.splits)

theorem write_jump_ignores_failed_append_witness:
  "(6 :: u32) mod 4 \<noteq> 0 \<and>
   fst (add_to_table (Some (create_table SYMTBL_NON_UNIQUE)) (Some ''label'') 6) = - 1 \<and>
   write_jump 0x02 [Some ''label''] 6 (Some (create_table SYMTBL_NON_UNIQUE)) =
     (0, ''08000000'' @ [newline], Some (create_table SYMTBL_NON_UNIQUE), [Addr_alignment_incorrect]) \<and>
   fst (add_to_table (Some (create_table SYMTBL_NON_UNIQUE)) None 12) = - 1 \<and>
   write_jump 0x02 [None] 12 (Some (create_table SYMTBL_NON_UNIQUE)) =
     (0, ''08000000'' @ [newline], Some (create_table SYMTBL_NON_UNIQUE), [])"
proof -
  have m: "(6 :: u32) mod 4 \<noteq> 0" by simp
  from write_jump_ignores_failed_append
    [where opcode = 2 and ?a0.0 = "Some ''label''" and address = 6
       and reltbl = "Some (create_table SYMTBL_NON_UNIQUE)"] m
  have a: "fst (add_to_table (Some (create_table SYMTBL_NON_UNIQUE)) (Some ''label'') 6) = - 1"
    by blast
  from write_jump_ignores_failed_append
    [where opcode = 2 and ?a0.0 = None and address = 12
       and reltbl = "Some (create_table SYMTBL_NON_UNIQUE)"]
  have b: "fst (add_to_table (Some (create_table SYMTBL_NON_UNIQUE)) None 12) = - 1"
    by blast
  have c: "write_jump 0x02 [Some ''label''] 6 (Some (create_table SYMTBL_NON_UNIQUE)) =
     (0, ''08000000'' @ [newline], Some (create_table SYMTBL_NON_UNIQUE), [Addr_alignment_incorrect])"
    by (simp add: add_to_table_def shl32_j hex_08000000)
  have d: "write_jump 0x02 [None] 12 (Some (create_table SYMTBL_NON_UNIQUE)) =
     (0, ''08000000'' @ [newline], Some (create_table SYMTBL_NON_UNIQUE), [])"
    by (simp add: add_to_table_def shl32_j hex_08000000)
  from m a b c d show ?thesis by blast
qed

text \<open>
  Claim C4 as stated fails at an address that is not a multiple of 4: \<open>j label\<close> at
  address 13 returns 0 and writes \<open>08000000\<close>, and the relocation table is still empty.
\<close>

theorem write_jump_skips_misaligned:
  "write_jump 0x02 [Some ''label''] 13 (Some (create_table SYMTBL_NON_UNIQUE)) =
     (0, ''08000000'' @ [newline], Some (create_table SYMTBL_NON_UNIQUE), [Addr_alignment_incorrect]) \<and>
   tbl (create_table SYMTBL_NON_UNIQUE) = []"
  by (simp add: add_to_table_def shl32_j hex_08000000 create_table_def)

text \<open>
  Claim C4, as amended. For \<open>j\<close> and \<open>jal\<close> with exactly one non-null argument, at
  an address that is a multiple of 4 and with a relocation table that is not a
  \<open>SYMTBL_UNIQUE_NAME\<close> table already holding the label (so any non-unique table),
  the pair of the label and the address is appended to the
  relocation table, 0 is returned and the word written is \<open>opcode << 26\<close>, whose low
  26 bits are zero.
\<close>

theorem write_jump_records_relocation:
  assumes "(nm, opcode) \<in> {(''j'', 0x02), (''jal'', 0x03)}"
    and "address mod 4 = 0"
    and "\<not> (mode t = SYMTBL_UNIQUE_NAME \<and> label \<in> name ` set (tbl t))"
  shows "translate_inst imm0 nm [Some label] address symtbl (Some t) =
           Some (write_jump opcode [Some label] address (Some t)) \<and>
         write_jump opcode [Some label] address (Some t) =
           (0, write_inst_hex (push_bit 26 (ucast opcode)),
            Some (t\<lparr>tbl := tbl t @ [\<lparr>name = label, addr = address\<rparr>],
                    cap := (if len t = cap t then cap t * SCALING_FACTOR else cap t)\<rparr>), []) \<and>
         (push_bit 26 (ucast opcode) :: u32) AND 0x3FFFFFF = 0"
proof -
  have ti: "translate_inst imm0 nm [Some label] address symtbl (Some t) =
           Some (write_jump opcode [Some label] address (Some t))"
    using assms(1) unfolding translate_inst_def by (auto simp del: write_jump.simps)
  have wj: "write_jump opcode [Some label] address (Some t) =
           (0, write_inst_hex (push_bit 26 (ucast opcode)),
            Some (t\<lparr>tbl := tbl t @ [\<lparr>name = label, addr = address\<rparr>],
                    cap := (if len t = cap t then cap t * SCALING_FACTOR else cap t)\<rparr>), [])"
    using assms(2,3) by (simp add: add_to_table_def shl32_uint Let_def name_exists_iff)
  have z: "(push_bit 26 (ucast opcode) :: u32) AND 0x3FFFFFF = 0"
    using assms(1) by auto
  from ti wj z show ?thesis by blast
qed

theorem write_jump_records_relocation_witness:
  "(12 :: u32) mod 4 = 0 \<and>
   \<not> (mode (create_table SYMTBL_NON_UNIQUE) = SYMTBL_UNIQUE_NAME \<and>
      ''label'' \<in> name ` set (tbl (create_table SYMTBL_NON_UNIQUE))) \<and>
   translate_inst 0 ''j'' [Some ''label''] 12 None (Some (create_table SYMTBL_NON_UNIQUE)) =
     Some (0, ''08000000'' @ [newline],
           Some \<lparr>tbl = [\<lparr>name = ''label'', addr = 12\<rparr>], cap = 5, mode = SYMTBL_NON_UNIQUE\<rparr>, [])"
proof -
  have h1: "(''j'', 0x02 :: u8) \<in> {(''j'', 0x02), (''jal'', 0x03)}" by simp
  have h2: "(12 :: u32) mod 4 = 0" by simp
  have h3: "\<not> (mode (create_table SYMTBL_NON_UNIQUE) = SYMTBL_UNIQUE_NAME \<and>
      ''label'' \<in> name ` set (tbl (create_table SYMTBL_NON_UNIQUE)))"
    by (simp add: create_table_def)
  have w: "push_bit 26 (ucast (2 :: u8)) = (0x08000000 :: u32)" by simp
  from write_jump_records_relocation [OF h1 h2 h3, where ?imm0.0 = 0 and symtbl = None]
  have "translate_inst 0 ''j'' [Some ''label''] 12 None (Some (create_table SYMTBL_NON_UNIQUE)) =
     Some (0, ''08000000'' @ [newline],
           Some \<lparr>tbl = [\<lparr>name = ''label'', addr = 12\<rparr>], cap = 5, mode = SYMTBL_NON_UNIQUE\<rparr>, [])"
    by (simp add: w hex_08000000 create_table_def len_def INITIAL_SIZE_def)
  with h2 h3 show ?thesis by blast
qed

section \<open>Branches\<close>

lemma reg_bits:
  assumes "0 \<le> r" "r < 32" "bit (r :: int) n"
  shows "n < 5"
proof -
  have "r = take_bit 5 r"
    using assms(1,2) by (simp add: take_bit_int_eq_self)
  then have "bit (take_bit 5 r) n"
    using assms(3) by simp
  then show ?thesis
    by (simp add: bit_take_bit_iff)
qed

lemma fields_disjoint:
  fixes x :: u32 and opcode :: u8
  assumes "0 \<le> rt" "rt < 32" "0 \<le> rs" "rs < 32"
  shows "(x AND 0xFFFF) + shl32 rt 16 + shl32 rs 21 + shl32 (uint opcode) 26 =
         (x AND 0xFFFF) OR push_bit 16 (word_of_int rt) OR push_bit 21 (word_of_int rs) OR
           push_bit 26 (ucast opcode)"
proof -
  let ?a = "x AND mask 16" and ?b = "push_bit 16 (word_of_int rt :: u32)"
    and ?c = "push_bit 21 (word_of_int rs :: u32)" and ?d = "push_bit 26 (ucast opcode :: u32)"
  have m: "(0xFFFF :: u32) = mask 16"
    by (simp add: mask_eq_exp_minus_1)
  have ab: "?a AND ?b = 0"
    by (rule bit_eqI) (auto simp: bit_simps)
  have abc: "(?a OR ?b) AND ?c = 0"
    by (rule bit_eqI) (auto simp: bit_simps dest: reg_bits [OF assms(1,2)])
  have abcd: "((?a OR ?b) OR ?c) AND ?d = 0"
    by (rule bit_eqI)
      (auto simp: bit_simps dest: reg_bits [OF assms(1,2)] reg_bits [OF assms(3,4)])
  have "?a + ?b + ?c + ?d = ((?a OR ?b) OR ?c) OR ?d"
    by (simp only: disjunctive_add_eq_or [OF ab] disjunctive_add_eq_or [OF abc]
        disjunctive_add_eq_or [OF abcd])
  also have "\<dots> = ?a OR ?b OR ?c OR ?d"
    by (simp only: or.assoc)
  finally have "?a + ?b + ?c + ?d = ?a OR ?b OR ?c OR ?d" .
  then show ?thesis
    by (simp add: m shl32_def)
qed

lemma quotient_low_bits:
  "(word_of_int d :: u32) div 4 AND 0xFFFF = word_of_int (d div 4) AND 0xFFFF"
proof -
  have m: "(0xFFFF :: u32) = mask 16"
    by (simp add: mask_eq_exp_minus_1)
  have "drop_bit 2 (word_of_int d :: u32) AND mask 16 = word_of_int (drop_bit 2 d) AND mask 16"
    by (rule bit_eqI) (auto simp: bit_simps bit_word_of_int_iff)
  then show ?thesis
    by (simp add: m drop_bit_eq_div)
qed

lemma offset_word:
  "word_of_int (sint (w :: u32) AND 0xffff) = w AND 0xFFFF"
proof -
  have "word_of_int (sint w AND mask 16) = w AND mask 16"
    by (simp add: of_int_and_eq of_int_mask_eq)
  then show ?thesis
    by (simp add: mask_eq_exp_minus_1)
qed

lemma addr_loop_aligned:
  fixes target :: u32
  shows "list_all (\<lambda>s. addr s mod 4 = 0) ss \<Longrightarrow> addr_loop ss nm = uint target \<Longrightarrow> target mod 4 = 0"
proof (induction ss)
  case Nil
  have "uint target \<noteq> - 1"
    using uint_ge_0 [of target] by linarith
  with Nil show ?case by simp
next
  case (Cons s ss)
  show ?case
  proof (cases "name s = nm")
    case True
    with Cons.prems(2) have "uint (addr s) = uint target" by simp
    then have "addr s = target" by (simp only: word_uint_eq_iff)
    with Cons.prems(1) show ?thesis by simp
  next
    case False
    with Cons show ?thesis by simp
  qed
qed

lemma aligned_sint:
  fixes a b :: u32
  assumes "a mod 4 = 0" "b mod 4 = 0"
  shows "4 dvd sint (a - b)"
proof -
  have "uint (a mod 4) = 0" "uint (b mod 4) = 0"
    using assms by simp_all
  then have ua: "uint a mod 4 = 0" and ub: "uint b mod 4 = 0"
    by (simp_all add: uint_mod)
  have "a - b = word_of_int (uint a - uint b)"
    by simp
  then have "sint (a - b) = signed_take_bit 31 (uint a - uint b)"
    by (simp only: sint_sbintrunc') simp
  then have "take_bit 2 (sint (a - b)) = take_bit 2 (uint a - uint b)"
    by (simp add: take_bit_signed_take_bit)
  also have "\<dots> = 0"
    using ua ub by (simp add: take_bit_eq_mod) presburger
  finally have "sint (a - b) mod 4 = 0"
    by (simp add: take_bit_eq_mod)
  then show ?thesis by presburger
qed

lemma can_branch_to_range:
  "can_branch_to src dest \<longleftrightarrow>
     (0 \<le> sint (dest - src) \<and> sint (dest - src) \<le> 131072) \<or>
     (- 131068 \<le> sint (dest - src) \<and> sint (dest - src) < 0)"
  by (auto simp: can_branch_to_def TWO_POW_SEVENTEEN_def Let_def)

lemma label_addr_absent: "sint (word_of_int (- 1) :: u32) = - 1"
  by simp

lemma label_addr_present:
  fixes target :: u32
  assumes "target mod 4 = 0"
  shows "sint (word_of_int (uint target) :: u32) \<noteq> - 1"
    and "word_of_int (sint (word_of_int (uint target) :: u32)) = target"
proof -
  have m: "(- 1 :: u32) mod 4 = 3"
    by (simp add: word_uint_eq_iff uint_mod)
  have "target \<noteq> - 1"
  proof
    assume "target = - 1"
    with assms have "(- 1 :: u32) mod 4 = 0" by (simp only:)
    with m have "(3 :: u32) = 0" by (simp only:)
    then show False by simp
  qed
  moreover have "target = - 1" if "sint target = - 1"
  proof -
    from that have "word_of_int (sint target) = (word_of_int (- 1) :: u32)" by simp
    then show ?thesis by simp
  qed
  ultimately show "sint (word_of_int (uint target) :: u32) \<noteq> - 1"
    by auto
  show "word_of_int (sint (word_of_int (uint target) :: u32)) = target"
    by simp
qed

lemma write_branch_absent:
  assumes "get_addr_for_symbol symtbl lbl = - 1"
  shows "write_branch opcode [Some a0, Some a1, Some lbl] address symtbl = (- 1, [])"
  using assms by simp

lemma write_branch_present:
  fixes target :: u32
  assumes regs: "translate_reg a0 \<noteq> - 1" "translate_reg a1 \<noteq> - 1"
    and al: "target mod 4 = 0"
    and look: "get_addr_for_symbol symtbl lbl = uint target"
  shows "write_branch opcode [Some a0, Some a1, Some lbl] address symtbl =
     (if can_branch_to address target
      then (0, write_inst_hex
            ((word_of_int ((sint (target - address) - 4) div 4) AND 0xFFFF) OR
              push_bit 16 (word_of_int (translate_reg a1)) OR
              push_bit 21 (word_of_int (translate_reg a0)) OR
              push_bit 26 (ucast opcode)))
      else (- 1, []))"
proof -
  let ?rs = "translate_reg a0" and ?rt = "translate_reg a1"
  let ?q = "(target - address - 4) div 4"
  have rs: "0 \<le> ?rs" "?rs < 32" and rt: "0 \<le> ?rt" "?rt < 32"
    using regs translate_reg_range [of a0] translate_reg_range [of a1] by auto
  have "target - address - 4 = word_of_int (sint (target - address) - 4)"
    by simp
  then have "?q AND 0xFFFF = word_of_int ((sint (target - address) - 4) div 4) AND 0xFFFF"
    by (simp only: quotient_low_bits)
  then have word: "word_of_int (sint ?q AND 0xffff) + shl32 ?rt 16 + shl32 ?rs 21 +
      shl32 (uint opcode) 26 =
    (word_of_int ((sint (target - address) - 4) div 4) AND 0xFFFF) OR
      push_bit 16 (word_of_int ?rt) OR push_bit 21 (word_of_int ?rs) OR push_bit 26 (ucast opcode)"
    by (simp only: offset_word fields_disjoint [OF rt rs])
  show ?thesis
    using regs label_addr_present [OF al]
    by (simp only: write_branch.simps Let_def look word) simp
qed

lemma translate_inst_branch:
  assumes "(nm, opcode) \<in> {(''beq'', 0x04), (''bne'', 0x05)}"
  shows "translate_inst imm0 nm args address (Some t) reltbl =
           (if args = [] then Some (- 1, [], reltbl, [])
            else Some (fst (write_branch opcode args address (Some t)),
                 snd (write_branch opcode args address (Some t)), reltbl, []))"
proof -
  from assms consider "nm = ''beq''" "opcode = 0x04" | "nm = ''bne''" "opcode = 0x05"
    by auto
  then show ?thesis
  proof cases
    case 1
    then show ?thesis
      by (simp add: translate_inst_def no_effect_def del: write_branch.simps)
  next
    case 2
    then show ?thesis
      by (simp add: translate_inst_def no_effect_def del: write_branch.simps)
  qed
qed

lemma write_branch_in_range:
  fixes target :: u32
  assumes regs: "translate_reg a0 = rs" "rs \<noteq> - 1" "translate_reg a1 = rt" "rt \<noteq> - 1"
    and al: "word_aligned t"
    and look: "get_addr_for_symbol (Some t) lbl = uint target"
  shows "((0 \<le> sint (target - address) \<and> sint (target - address) \<le> 131072) \<or>
          (- 131068 \<le> sint (target - address) \<and> sint (target - address) < 0) \<longrightarrow>
           write_branch opcode [Some a0, Some a1, Some lbl] address (Some t) =
             (0, write_inst_hex
                   ((word_of_int ((sint (target - address) - 4) div 4) AND 0xFFFF) OR
                    push_bit 16 (word_of_int rt) OR push_bit 21 (word_of_int rs) OR
                    push_bit 26 (ucast opcode)))) \<and>
         (\<not> ((0 \<le> sint (target - address) \<and> sint (target - address) \<le> 131072) \<or>
          (- 131068 \<le> sint (target - address) \<and> sint (target - address) < 0)) \<longrightarrow>
           write_branch opcode [Some a0, Some a1, Some lbl] address (Some t) = (- 1, [])) \<and>
         (address mod 4 = 0 \<longrightarrow> 4 dvd (sint (target - address) - 4))"
proof -
  have "addr_loop (tbl t) lbl = uint target"
    using look by (simp add: get_addr_for_symbol_def)
  with al have tm: "target mod 4 = 0"
    unfolding word_aligned_def by (rule addr_loop_aligned)
  have r: "translate_reg a0 \<noteq> - 1" "translate_reg a1 \<noteq> - 1"
    using regs by simp_all
  have exact: "4 dvd (sint (target - address) - 4)" if "address mod 4 = 0"
    using aligned_sint [OF tm that] by presburger
  note wb = write_branch_present [OF r tm look, of opcode address, unfolded can_branch_to_range regs]
  have yes: "write_branch opcode [Some a0, Some a1, Some lbl] address (Some t) =
             (0, write_inst_hex
                   ((word_of_int ((sint (target - address) - 4) div 4) AND 0xFFFF) OR
                    push_bit 16 (word_of_int rt) OR push_bit 21 (word_of_int rs) OR
                    push_bit 26 (ucast opcode)))"
    if "(0 \<le> sint (target - address) \<and> sint (target - address) \<le> 131072) \<or>
          (- 131068 \<le> sint (target - address) \<and> sint (target - address) < 0)"
    using that by (simp only: wb if_True)
  have no: "write_branch opcode [Some a0, Some a1, Some lbl] address (Some t) = (- 1, [])"
    if "\<not> ((0 \<le> sint (target - address) \<and> sint (target - address) \<le> 131072) \<or>
          (- 131068 \<le> sint (target - address) \<and> sint (target - address) < 0))"
    using that by (simp only: wb if_False)
  from yes no exact show ?thesis by blast
qed

text \<open>
  The signed 32-bit difference of two addresses below \<open>2^31\<close> is their difference
  as integers: no wrap-around occurs.
\<close>

lemma sint_difference_exact:
  fixes target address :: u32
  assumes "uint target < 2 ^ 31" "uint address < 2 ^ 31"
  shows "sint (target - address) = uint target - uint address"
proof -
  have lo: "- (2 ^ 31) \<le> uint target - uint address"
    using assms(2) uint_ge_0 [of target] by linarith
  have hi: "uint target - uint address < 2 ^ 31"
    using assms(1) uint_ge_0 [of address] by linarith
  have "target - address = word_of_int (uint target - uint address)"
    by simp
  then have "sint (target - address) = signed_take_bit 31 (uint target - uint address)"
    by (simp only: sint_sbintrunc') simp
  also have "\<dots> = uint target - uint address"
    using lo hi by (simp add: signed_take_bit_int_eq_self)
  finally show ?thesis .
qed

lemma hex_11090001: "write_inst_hex 0x11090001 = ''11090001'' @ [newline]"
  by (simp add: write_inst_hex_def hex_digit_def drop_bit_eq_div)

text \<open>
  Claim C1. For \<open>beq\<close> and \<open>bne\<close> with two valid registers and a label, on a label
  table whose addresses are word-aligned: when the label is not in the table the
  call returns \<open>- 1\<close> and writes nothing; when it is bound to \<open>target\<close>, let \<open>diff\<close> be
  the 32-bit difference \<open>target - addr\<close> read as signed (the \<open>int32_t diff\<close> of
  \<open>can_branch_to\<close>, the plain difference for addresses below \<open>2^31\<close>); unless
  \<open>0 \<le> diff \<le> 131072\<close> or \<open>- 131068 \<le> diff < 0\<close> the call returns \<open>- 1\<close> and
  writes nothing, and otherwise it returns 0 and writes the word
  \<open>(offset & 0xFFFF) | rt << 16 | rs << 21 | opcode << 26\<close> with
  \<open>offset = (diff - 4) / 4\<close>. The division is exact when the instruction address is
  word-aligned too; in general the low 16 bits are those of the quotient rounded down.
\<close>
theorem write_branch_encoding:
  fixes target :: u32
  assumes "(nm, opcode) \<in> {(''beq'', 0x04), (''bne'', 0x05)}"
    and "translate_reg a0 = rs" "rs \<noteq> - 1"
    and "translate_reg a1 = rt" "rt \<noteq> - 1"
    and "word_aligned t"
  shows "translate_inst imm0 nm [Some a0, Some a1, Some lbl] address (Some t) reltbl =
           Some (fst (write_branch opcode [Some a0, Some a1, Some lbl] address (Some t)),
                 snd (write_branch opcode [Some a0, Some a1, Some lbl] address (Some t)),
                 reltbl, []) \<and>
         (get_addr_for_symbol (Some t) lbl = - 1 \<longrightarrow>
            write_branch opcode [Some a0, Some a1, Some lbl] address (Some t) = (- 1, [])) \<and>
         (get_addr_for_symbol (Some t) lbl = uint target \<longrightarrow>
            ((0 \<le> sint (target - address) \<and> sint (target - address) \<le> 131072) \<or>
             (- 131068 \<le> sint (target - address) \<and> sint (target - address) < 0) \<longrightarrow>
               write_branch opcode [Some a0, Some a1, Some lbl] address (Some t) =
                 (0, write_inst_hex
                       ((word_of_int ((sint (target - address) - 4) div 4) AND 0xFFFF) OR
                        push_bit 16 (word_of_int rt) OR push_bit 21 (word_of_int rs) OR
                        push_bit 26 (ucast opcode)))) \<and>
            (\<not> ((0 \<le> sint (target - address) \<and> sint (target - address) \<le> 131072) \<or>
                (- 131068 \<le> sint (target - address) \<and> sint (target - address) < 0)) \<longrightarrow>
               write_branch opcode [Some a0, Some a1, Some lbl] address (Some t) = (- 1, [])) \<and>
            (address mod 4 = 0 \<longrightarrow> 4 dvd (sint (target - address) - 4)))"
proof (intro conjI impI)
  show "translate_inst imm0 nm [Some a0, Some a1, Some lbl] address (Some t) reltbl =
           Some (fst (write_branch opcode [Some a0, Some a1, Some lbl] address (Some t)),
                 snd (write_branch opcode [Some a0, Some a1, Some lbl] address (Some t)),
                 reltbl, [])"
    by (simp only: translate_inst_branch [OF assms(1)] list.distinct if_False)
next
  assume "get_addr_for_symbol (Some t) lbl = - 1"
  then show "write_branch opcode [Some a0, Some a1, Some lbl] address (Some t) = (- 1, [])"
    by (rule write_branch_absent)
next
  assume look: "get_addr_for_symbol (Some t) lbl = uint target"
  note r = write_branch_in_range [OF assms(2-6) look, where opcode = opcode and address = address]
  note r1 = r [THEN conjunct1] and r2 = r [THEN conjunct2, THEN conjunct1]
    and r3 = r [THEN conjunct2, THEN conjunct2]
  {
    assume "(0 \<le> sint (target - address) \<and> sint (target - address) \<le> 131072) \<or>
             (- 131068 \<le> sint (target - address) \<and> sint (target - address) < 0)"
    with r1 show "write_branch opcode [Some a0, Some a1, Some lbl] address (Some t) =
                 (0, write_inst_hex
                       ((word_of_int ((sint (target - address) - 4) div 4) AND 0xFFFF) OR
                        push_bit 16 (word_of_int rt) OR push_bit 21 (word_of_int rs) OR
                        push_bit 26 (ucast opcode)))"
      by (rule mp)
  next
    assume "\<not> ((0 \<le> sint (target - address) \<and> sint (target - address) \<le> 131072) \<or>
                (- 131068 \<le> sint (target - address) \<and> sint (target - address) < 0))"
    with r2 show "write_branch opcode [Some a0, Some a1, Some lbl] address (Some t) = (- 1, [])"
      by (rule mp)
  next
    assume "address mod 4 = 0"
    with r3 show "4 dvd (sint (target - address) - 4)"
      by (rule mp)
  }
qed

theorem write_branch_encoding_witness:
  "translate_reg ''$t0'' = 8 \<and> translate_reg ''$t1'' = 9 \<and>
   word_aligned \<lparr>tbl = [\<lparr>name = ''label'', addr = 8\<rparr>], cap = 5, mode = SYMTBL_UNIQUE_NAME\<rparr> \<and>
   get_addr_for_symbol
     (Some \<lparr>tbl = [\<lparr>name = ''label'', addr = 8\<rparr>], cap = 5, mode = SYMTBL_UNIQUE_NAME\<rparr>)
     ''label'' = uint (8 :: u32) \<and>
   sint (8 - 0 :: u32) = 8 \<and>
   translate_inst 0 ''beq'' [Some ''$t0'', Some ''$t1'', Some ''label''] 0
     (Some \<lparr>tbl = [\<lparr>name = ''label'', addr = 8\<rparr>], cap = 5, mode = SYMTBL_UNIQUE_NAME\<rparr>) None =
     Some (0, ''11090001'' @ [newline], None, []) \<and>
   (0x11090001 :: u32) AND 0xFFFF = 1 \<and> drop_bit 26 (0x11090001 :: u32) = 0x04 \<and>
   get_addr_for_symbol
     (Some \<lparr>tbl = [\<lparr>name = ''label'', addr = 8\<rparr>], cap = 5, mode = SYMTBL_UNIQUE_NAME\<rparr>)
     ''other'' = - 1 \<and>
   translate_inst 0 ''bne'' [Some ''$t0'', Some ''$t1'', Some ''other''] 0
     (Some \<lparr>tbl = [\<lparr>name = ''label'', addr = 8\<rparr>], cap = 5, mode = SYMTBL_UNIQUE_NAME\<rparr>) None =
     Some (- 1, [], None, []) \<and>
   sint (8 - 0x40000 :: u32) = - 262136 \<and>
   translate_inst 0 ''beq'' [Some ''$t0'', Some ''$t1'', Some ''label''] 0x40000
     (Some \<lparr>tbl = [\<lparr>name = ''label'', addr = 8\<rparr>], cap = 5, mode = SYMTBL_UNIQUE_NAME\<rparr>) None =
     Some (- 1, [], None, [])"
proof -
  let ?t = "\<lparr>tbl = [\<lparr>name = ''label'', addr = 8\<rparr>], cap = 5, mode = SYMTBL_UNIQUE_NAME\<rparr>"
  let ?args = "[Some ''$t0'', Some ''$t1'', Some ''label'']"
  let ?args' = "[Some ''$t0'', Some ''$t1'', Some ''other'']"
  have h1: "(''beq'', 0x04 :: u8) \<in> {(''beq'', 0x04), (''bne'', 0x05)}" by simp
  have h1': "(''bne'', 0x05 :: u8) \<in> {(''beq'', 0x04), (''bne'', 0x05)}" by simp
  have h2: "translate_reg ''$t0'' = 8" and h3: "translate_reg ''$t1'' = 9"
    by (simp_all add: translate_reg_def)
  have h4: "(8 :: int) \<noteq> - 1" and h5: "(9 :: int) \<noteq> - 1" by simp_all
  have h6: "word_aligned ?t"
    by (simp add: word_aligned_def)
  have look: "get_addr_for_symbol (Some ?t) ''label'' = uint (8 :: u32)"
    by (simp add: get_addr_for_symbol_def)
  have look': "get_addr_for_symbol (Some ?t) ''other'' = - 1"
    by (simp add: get_addr_for_symbol_def)
  have d: "sint (8 - 0 :: u32) = 8" by simp
  have rng: "(0 \<le> sint (8 - 0 :: u32) \<and> sint (8 - 0 :: u32) \<le> 131072) \<or>
             (- 131068 \<le> sint (8 - 0 :: u32) \<and> sint (8 - 0 :: u32) < 0)"
    by (simp only: d) simp
  have word: "(word_of_int ((sint (8 - 0 :: u32) - 4) div 4) AND 0xFFFF) OR
      push_bit 16 (word_of_int 9) OR push_bit 21 (word_of_int 8) OR
      push_bit 26 (ucast (0x04 :: u8)) = (0x11090001 :: u32)"
    by (simp only: d) (simp add: push_bit_eq_mult)
  note th = write_branch_encoding [OF h1 h2 h4 h3 h5 h6,
      where ?imm0.0 = 0 and lbl = "''label''" and address = 0 and reltbl = None and target = 8]
  from th [THEN conjunct2, THEN conjunct2, THEN mp, OF look, THEN conjunct1, THEN mp, OF rng]
  have wb: "write_branch 0x04 ?args 0 (Some ?t) = (0, ''11090001'' @ [newline])"
    by (simp only: word hex_11090001)
  from th [THEN conjunct1]
  have ti: "translate_inst 0 ''beq'' ?args 0 (Some ?t) None =
      Some (0, ''11090001'' @ [newline], None, [])"
    by (simp only: wb fst_conv snd_conv)
  have bits: "(0x11090001 :: u32) AND 0xFFFF = 1" "drop_bit 26 (0x11090001 :: u32) = 0x04"
    by (simp_all add: drop_bit_eq_div)
  note th' = write_branch_encoding [OF h1' h2 h4 h3 h5 h6,
      where ?imm0.0 = 0 and lbl = "''other''" and address = 0 and reltbl = None and target = 8]
  from th' [THEN conjunct2, THEN conjunct1, THEN mp, OF look']
  have wb': "write_branch 0x05 ?args' 0 (Some ?t) = (- 1, [])" .
  from th' [THEN conjunct1]
  have ti': "translate_inst 0 ''bne'' ?args' 0 (Some ?t) None = Some (- 1, [], None, [])"
    by (simp only: wb' fst_conv snd_conv)
  have d'': "sint (8 - 0x40000 :: u32) = - 262136" by simp
  have far: "\<not> ((0 \<le> sint (8 - 0x40000 :: u32) \<and> sint (8 - 0x40000 :: u32) \<le> 131072) \<or>
             (- 131068 \<le> sint (8 - 0x40000 :: u32) \<and> sint (8 - 0x40000 :: u32) < 0))"
    by (simp only: d'') simp
  note th'' = write_branch_encoding [OF h1 h2 h4 h3 h5 h6,
      where ?imm0.0 = 0 and lbl = "''label''" and address = "0x40000" and reltbl = None
        and target = 8]
  from th'' [THEN conjunct2, THEN conjunct2, THEN mp, OF look, THEN conjunct2, THEN conjunct1,
      THEN mp, OF far]
  have wb'': "write_branch 0x04 ?args 0x40000 (Some ?t) = (- 1, [])" .
  from th'' [THEN conjunct1]
  have ti'': "translate_inst 0 ''beq'' ?args 0x40000 (Some ?t) None = Some (- 1, [], None, [])"
    by (simp only: wb'' fst_conv snd_conv)
  from h2 h3 h6 look d ti bits look' ti' d'' ti'' show ?thesis
    by (intro conjI)
qed

end
